theory Spec2Isabelle
  imports Main "HOL-Library.Char_ord"
begin

section \<open>Strings\<close>

text \<open>
  Python \<open>str\<close> values are modelled as HOL strings (lists of 8-bit characters, that
  is code points below 256). The helpers below are the string operations the extractor
  uses: \<open>a in b\<close>, \<open>s.strip()\<close> and \<open>s.lower()\<close>; \<open>bool(s)\<close> is \<open>s \<noteq> []\<close>.
\<close>

definition codepoint :: "char \<Rightarrow> nat" where
  "codepoint c = of_char c"

definition in_range :: "char \<Rightarrow> char \<Rightarrow> char \<Rightarrow> bool" where
  "in_range lo hi c = (codepoint lo \<le> codepoint c \<and> codepoint c \<le> codepoint hi)"

text \<open>\<open>sub in s\<close> for two strings: \<open>sub\<close> occurs in \<open>s\<close> as a contiguous substring.\<close>

fun startswith :: "string \<Rightarrow> string \<Rightarrow> bool" where
  "startswith s [] = True"
| "startswith [] (p # ps) = False"
| "startswith (c # cs) (p # ps) = (c = p \<and> startswith cs ps)"

fun str_in :: "string \<Rightarrow> string \<Rightarrow> bool" where
  "str_in sub [] = (sub = [])"
| "str_in sub (c # cs) = (startswith (c # cs) sub \<or> str_in sub cs)"

text \<open>
  Whitespace as \<open>str.isspace\<close> sees it on code points below 256: tab to carriage
  return, the four separators 28..31, space, NEL (133) and the no-break space (160).
\<close>

definition is_space :: "char \<Rightarrow> bool" where
  "is_space c = (let n = codepoint c in
     (9 \<le> n \<and> n \<le> 13) \<or> (28 \<le> n \<and> n \<le> 32) \<or> n = 133 \<or> n = 160)"

definition strip :: "string \<Rightarrow> string" where
  "strip s = rev (dropWhile is_space (rev (dropWhile is_space s)))"

text \<open>
  \<open>str.lower\<close> on code points below 256: the ASCII capitals and the Latin-1 capitals
  192..222 (without the multiplication sign 215) move up by 32.
\<close>

definition lower_char :: "char \<Rightarrow> char" where
  "lower_char c = (let n = codepoint c in
     if (65 \<le> n \<and> n \<le> 90) \<or> (192 \<le> n \<and> n \<le> 222 \<and> n \<noteq> 215)
     then char_of (n + 32) else c)"

definition lower :: "string \<Rightarrow> string" where
  "lower s = map lower_char s"

section \<open>Exceptions\<close>

text \<open>
  The handlers of the extractor distinguish \<open>NoSuchElementException\<close> from everything
  else (\<open>except Exception\<close> and the bare \<open>except\<close>), so two exception values suffice.
\<close>

datatype exn = NoSuchElementException | OtherException

section \<open>LinkedInProfile\<close>

text \<open>
  The dataclass \<open>LinkedInProfile\<close>. The five contact lists are declared
  \<open>List[str] = None\<close>: the keyword arguments of the constructor carry
  \<open>string list option\<close> there, and \<open>__post_init__\<close> replaces \<open>None\<close> by the empty
  list. The record is polymorphic in the type of the contact-list fields so that the
  keyword arguments and the constructed object share their field names.
\<close>

record 'l profile_fields =
  full_name :: string
  linkedin_url :: string
  role :: string
  company :: string
  company_linkedin_url :: string
  geography :: string
  date_added :: string
  headline :: string
  about :: string
  location :: string
  connections_count :: "int option"
  emails :: 'l
  phones :: 'l
  websites :: 'l
  social_links :: 'l
  addresses :: 'l
  profile_type :: string
  extraction_timestamp :: string
  extraction_success :: bool

type_synonym LinkedInProfile_kwargs = "string list option profile_fields"
type_synonym LinkedInProfile = "string list profile_fields"

text \<open>The field defaults of the dataclass: what \<open>LinkedInProfile()\<close> passes on.\<close>

definition default_kwargs :: LinkedInProfile_kwargs where
  "default_kwargs = \<lparr> full_name = [], linkedin_url = [], role = [], company = [],
     company_linkedin_url = [], geography = [], date_added = [], headline = [],
     about = [], location = [], connections_count = None,
     emails = None, phones = None, websites = None, social_links = None,
     addresses = None, profile_type = ''unknown'', extraction_timestamp = [],
     extraction_success = False \<rparr>"

text \<open>\<open>if self.xs is None: self.xs = []\<close>\<close>

definition none_to_empty :: "string list option \<Rightarrow> string list" where
  "none_to_empty xs = (case xs of None \<Rightarrow> [] | Some l \<Rightarrow> l)"

text \<open>
  Construction: the generated \<open>__init__\<close> stores every keyword argument, then
  \<open>__post_init__\<close> runs. \<open>now\<close> is the reading of \<open>datetime.utcnow().isoformat()\<close>.
\<close>

definition post_init :: "string \<Rightarrow> LinkedInProfile_kwargs \<Rightarrow> LinkedInProfile" where
  "post_init now a = \<lparr> full_name = full_name a, linkedin_url = linkedin_url a,
     role = role a, company = company a,
     company_linkedin_url = company_linkedin_url a, geography = geography a,
     date_added = date_added a, headline = headline a, about = about a,
     location = location a, connections_count = connections_count a,
     emails = none_to_empty (emails a),
     phones = none_to_empty (phones a),
     websites = none_to_empty (websites a),
     social_links = none_to_empty (social_links a),
     addresses = none_to_empty (addresses a),
     profile_type = profile_type a,
     extraction_timestamp =
       (if extraction_timestamp a = [] then now else extraction_timestamp a),
     extraction_success = extraction_success a \<rparr>"

definition new_profile :: "string \<Rightarrow> LinkedInProfile" where
  "new_profile now = post_init now default_kwargs"

section \<open>Regular expressions\<close>

text \<open>
  The patterns handed to \<open>re.findall\<close>, as syntax trees. A character class
  \<open>[...]\<close> is a list of atoms, a literal character a class of one atom; \<open>r{m,n}\<close>,
  \<open>r?\<close>, \<open>r*\<close> and \<open>r+\<close> are greedy repetitions with a lower and an optional upper
  bound; \<open>\b\<close> is the word boundary and \<open>(...)\<close> the capturing group.
\<close>

datatype atom = Ch char | Rng char char | DigitCls | WordCls | SpaceCls

datatype rx =
    Eps
  | Cls "atom list"
  | Seq rx rx
  | Rep nat "nat option" rx
  | Boundary
  | Group rx

definition rx_lit :: "char \<Rightarrow> rx" where
  "rx_lit c = Cls [Ch c]"

definition rx_cat :: "rx list \<Rightarrow> rx" where
  "rx_cat rs = foldr Seq rs Eps"

definition rx_str :: "string \<Rightarrow> rx" where
  "rx_str s = rx_cat (map rx_lit s)"

definition rx_opt :: "rx \<Rightarrow> rx" where
  "rx_opt r = Rep 0 (Some 1) r"

definition rx_star :: "rx \<Rightarrow> rx" where
  "rx_star r = Rep 0 None r"

definition rx_plus :: "rx \<Rightarrow> rx" where
  "rx_plus r = Rep 1 None r"

text \<open>
  \<open>\d\<close>, \<open>\w\<close> and \<open>\s\<close> on code points below 256, as Python 3 reads them in a
  \<open>str\<close> pattern: the only decimal digits are 0..9; a word character is an
  alphanumeric one or the underscore, which takes in the Latin-1 letters, superscript
  digits and fractions.
\<close>

definition is_digit :: "char \<Rightarrow> bool" where
  "is_digit c = in_range CHR ''0'' CHR ''9'' c"

definition is_word :: "char \<Rightarrow> bool" where
  "is_word c = (let n = codepoint c in
     (48 \<le> n \<and> n \<le> 57) \<or> (65 \<le> n \<and> n \<le> 90) \<or> n = 95 \<or> (97 \<le> n \<and> n \<le> 122)
     \<or> n = 170 \<or> n = 178 \<or> n = 179 \<or> n = 181 \<or> n = 185 \<or> n = 186
     \<or> (188 \<le> n \<and> n \<le> 190) \<or> (192 \<le> n \<and> n \<le> 214) \<or> (216 \<le> n \<and> n \<le> 246)
     \<or> 248 \<le> n)"

fun atom_ok :: "atom \<Rightarrow> char \<Rightarrow> bool" where
  "atom_ok (Ch a) c = (c = a)"
| "atom_ok (Rng lo hi) c = in_range lo hi c"
| "atom_ok DigitCls c = is_digit c"
| "atom_ok WordCls c = is_word c"
| "atom_ok SpaceCls c = is_space c"

text \<open>
  Under \<open>re.IGNORECASE\<close> a character also matches a literal or a range when its other
  case does. The literals and ranges of every pattern below are ASCII, where the other
  case is 32 away.
\<close>

definition swap_case :: "char \<Rightarrow> char" where
  "swap_case c = (let n = codepoint c in
     if 65 \<le> n \<and> n \<le> 90 then char_of (n + 32)
     else if 97 \<le> n \<and> n \<le> 122 then char_of (n - 32) else c)"

definition cls_ok :: "bool \<Rightarrow> atom list \<Rightarrow> char \<Rightarrow> bool" where
  "cls_ok ignorecase as c =
     list_ex (\<lambda>a. atom_ok a c \<or> (ignorecase \<and> atom_ok a (swap_case c))) as"

text \<open>
  A matcher state: the character before the position (for \<open>\b\<close>), the text still to
  read, and the text of the capturing group when it has matched.
\<close>

type_synonym mstate = "char option \<times> string \<times> string option"

definition at_boundary :: "char option \<Rightarrow> string \<Rightarrow> bool" where
  "at_boundary prev rest =
     ((case prev of None \<Rightarrow> False | Some c \<Rightarrow> is_word c)
      \<noteq> (case rest of [] \<Rightarrow> False | c # cs \<Rightarrow> is_word c))"

text \<open>
  Greedy repetition in backtracking order: first every way of matching the body once
  more, then stopping here. An iteration has to consume a character (every repeated
  body of the patterns below does), which bounds the loop by the text left.
\<close>

function rep_greedy ::
  "(mstate \<Rightarrow> mstate list) \<Rightarrow> nat \<Rightarrow> nat option \<Rightarrow> mstate \<Rightarrow> mstate list" where
  "rep_greedy step lo hi st =
     (if hi = Some 0 then [st]
      else concat (map (rep_greedy step (lo - 1) (map_option (\<lambda>n. n - 1) hi))
             (filter (\<lambda>st'. length (fst (snd st')) < length (fst (snd st))) (step st)))
           @ (if lo = 0 then [st] else []))"
  by pat_completeness auto
termination
  by (relation "measure (\<lambda>(step, lo, hi, st). length (fst (snd st)))") auto

declare rep_greedy.simps [simp del]

text \<open>
  All the ways a pattern matches at a position, in the order a backtracking matcher
  tries them: the head of the list is the match \<open>re\<close> reports.
\<close>

primrec rx_match :: "rx \<Rightarrow> bool \<Rightarrow> mstate \<Rightarrow> mstate list" where
  "rx_match Eps ic = (\<lambda>st. [st])"
| "rx_match (Cls as) ic = (\<lambda>st. case fst (snd st) of
       [] \<Rightarrow> []
     | c # cs \<Rightarrow> if cls_ok ic as c then [(Some c, cs, snd (snd st))] else [])"
| "rx_match (Seq r1 r2) ic = (\<lambda>st. concat (map (rx_match r2 ic) (rx_match r1 ic st)))"
| "rx_match (Rep lo hi r) ic = (\<lambda>st. rep_greedy (rx_match r ic) lo hi st)"
| "rx_match Boundary ic = (\<lambda>st. if at_boundary (fst st) (fst (snd st)) then [st] else [])"
| "rx_match (Group r) ic = (\<lambda>st.
     map (\<lambda>st'. (fst st', fst (snd st'),
                  Some (take (length (fst (snd st)) - length (fst (snd st'))) (fst (snd st)))))
         (rx_match r ic st))"

text \<open>
  \<open>re.findall\<close>: scan left to right; at each position take the first match, report
  the group when the pattern has one and the whole match otherwise, and go on behind
  the match. \<open>skip\<close> counts the characters of the last match still to step over.
\<close>

fun scan :: "rx \<Rightarrow> bool \<Rightarrow> nat \<Rightarrow> char option \<Rightarrow> string \<Rightarrow> string list" where
  "scan r ic skip prev [] =
     (if skip = 0 then (case rx_match r ic (prev, [], None) of
          [] \<Rightarrow> []
        | m # ms \<Rightarrow> [case snd (snd m) of None \<Rightarrow> [] | Some g \<Rightarrow> g])
      else [])"
| "scan r ic (Suc k) prev (c # cs) = scan r ic k (Some c) cs"
| "scan r ic 0 prev (c # cs) =
     (case rx_match r ic (prev, c # cs, None) of
        [] \<Rightarrow> scan r ic 0 (Some c) cs
      | m # ms \<Rightarrow>
          (let n = length (c # cs) - length (fst (snd m)) in
           (case snd (snd m) of None \<Rightarrow> take n (c # cs) | Some g \<Rightarrow> g)
             # scan r ic (n - 1) (Some c) cs))"

definition re_findall :: "rx \<Rightarrow> bool \<Rightarrow> string \<Rightarrow> string list" where
  "re_findall r ignorecase s = scan r ignorecase 0 None s"

subsection \<open>The patterns of the extractor\<close>

text \<open>\<^verbatim>\<open>\b[A-Za-z0-9._%+-]+@[A-Za-z0-9.-]+\.[A-Z|a-z]{2,}\b\<close>\<close>

definition email_address :: rx where
  "email_address = rx_cat [
     rx_plus (Cls [Rng CHR ''A'' CHR ''Z'', Rng CHR ''a'' CHR ''z'', Rng CHR ''0'' CHR ''9'',
                Ch CHR ''.'', Ch CHR ''_'', Ch CHR ''%'', Ch CHR ''+'', Ch CHR ''-'']),
     rx_lit CHR ''@'',
     rx_plus (Cls [Rng CHR ''A'' CHR ''Z'', Rng CHR ''a'' CHR ''z'', Rng CHR ''0'' CHR ''9'',
                Ch CHR ''.'', Ch CHR ''-'']),
     rx_lit CHR ''.'',
     Rep 2 None (Cls [Rng CHR ''A'' CHR ''Z'', Ch CHR ''|'', Rng CHR ''a'' CHR ''z''])]"

definition email_pattern_1 :: rx where
  "email_pattern_1 = rx_cat [Boundary, email_address, Boundary]"

text \<open>\<^verbatim>\<open>mailto:([A-Za-z0-9._%+-]+@[A-Za-z0-9.-]+\.[A-Z|a-z]{2,})\<close>\<close>

definition email_pattern_2 :: rx where
  "email_pattern_2 = rx_cat [rx_str ''mailto:'', Group email_address]"

text \<open>\<^verbatim>\<open>\+?1?[-.\s]?\(?[0-9]{3}\)?[-.\s]?[0-9]{3}[-.\s]?[0-9]{4}\<close>\<close>

definition phone_sep :: rx where
  "phone_sep = Cls [Ch CHR ''-'', Ch CHR ''.'', SpaceCls]"

definition digits :: "nat \<Rightarrow> rx" where
  "digits n = Rep n (Some n) (Cls [Rng CHR ''0'' CHR ''9''])"

definition phone_pattern_1 :: rx where
  "phone_pattern_1 = rx_cat [rx_opt (rx_lit CHR ''+''), rx_opt (rx_lit CHR ''1''), rx_opt phone_sep,
     rx_opt (rx_lit CHR ''(''), digits 3, rx_opt (rx_lit CHR '')''), rx_opt phone_sep, digits 3, rx_opt phone_sep,
     digits 4]"

text \<open>\<^verbatim>\<open>\+[1-9]\d{1,14}\<close>\<close>

definition phone_pattern_2 :: rx where
  "phone_pattern_2 = rx_cat [rx_lit CHR ''+'', Cls [Rng CHR ''1'' CHR ''9''],
     Rep 1 (Some 14) (Cls [DigitCls])]"

text \<open>\<^verbatim>\<open>\([0-9]{3}\)\s?[0-9]{3}-[0-9]{4}\<close>\<close>

definition phone_pattern_3 :: rx where
  "phone_pattern_3 = rx_cat [rx_lit CHR ''('', digits 3, rx_lit CHR '')'', rx_opt (Cls [SpaceCls]),
     digits 3, rx_lit CHR ''-'', digits 4]"

text \<open>\<^verbatim>\<open>https?://(?:[-\w.])+(?:[:\d]+)?(?:/(?:[\w/_.])*(?:\?(?:[\w&=%.])*)?(?:#(?:[\w.])*)?)?\<close>\<close>

definition url_pattern_1 :: rx where
  "url_pattern_1 = rx_cat [rx_str ''http'', rx_opt (rx_lit CHR ''s''), rx_str ''://'',
     rx_plus (Cls [Ch CHR ''-'', WordCls, Ch CHR ''.'']),
     rx_opt (rx_plus (Cls [Ch CHR '':'', DigitCls])),
     rx_opt (rx_cat [rx_lit CHR ''/'',
               rx_star (Cls [WordCls, Ch CHR ''/'', Ch CHR ''_'', Ch CHR ''.'']),
               rx_opt (rx_cat [rx_lit CHR ''?'',
                         rx_star (Cls [WordCls, Ch CHR ''&'', Ch CHR ''='', Ch CHR ''%'', Ch CHR ''.''])]),
               rx_opt (rx_cat [rx_lit CHR ''#'', rx_star (Cls [WordCls, Ch CHR ''.''])])])]"

text \<open>\<^verbatim>\<open>www\.[\w.-]+\.[a-z]{2,}\<close>\<close>

definition url_pattern_2 :: rx where
  "url_pattern_2 = rx_cat [rx_str ''www.'', rx_plus (Cls [WordCls, Ch CHR ''.'', Ch CHR ''-'']),
     rx_lit CHR ''.'', Rep 2 None (Cls [Rng CHR ''a'' CHR ''z''])]"

section \<open>The collaborators: browser session, HTML parser, regex library, clock\<close>

text \<open>
  The extractor drives a Selenium session and calls BeautifulSoup, \<open>re\<close> and the
  clock. They are the parameters of the model: \<open>'s\<close> is the state of the browser
  session (the page it shows), \<open>'e\<close> the type of element handles. A call that can
  raise returns \<open>exn + result\<close>; a click and a navigation return the next state of the
  session. \<open>soup_select_one\<close> gives \<open>get_text(strip=True)\<close> of the first element that
  \<open>BeautifulSoup(markup, 'html.parser').select_one(selector)\<close> finds, \<open>soup_select\<close>
  that text for every element \<open>select\<close> finds.
\<close>

record ('s, 'e) env =
  current_url :: "'s \<Rightarrow> string"
  page_source :: "'s \<Rightarrow> exn + string"
  find_element :: "'s \<Rightarrow> string \<Rightarrow> exn + 'e"
  find_elements :: "'s \<Rightarrow> string \<Rightarrow> exn + 'e list"
  elem_find_element :: "'s \<Rightarrow> 'e \<Rightarrow> string \<Rightarrow> exn + 'e"
  elem_text :: "'s \<Rightarrow> 'e \<Rightarrow> string"
  elem_get_attribute :: "'s \<Rightarrow> 'e \<Rightarrow> string \<Rightarrow> string option"
  elem_click :: "'s \<Rightarrow> 'e \<Rightarrow> exn + 's"
  driver_get :: "'s \<Rightarrow> string \<Rightarrow> exn + 's"
  soup_select_one :: "string \<Rightarrow> string \<Rightarrow> exn + string option"
  soup_select :: "string \<Rightarrow> string \<Rightarrow> exn + string list"
  findall :: "rx \<Rightarrow> bool \<Rightarrow> string \<Rightarrow> string list"
  utcnow :: string

section \<open>detect_page_type\<close>

definition detect_page_type :: "('s, 'e) env \<Rightarrow> 's \<Rightarrow> exn + string" where
  "detect_page_type E s =
     (let url = current_url E s in
      if str_in ''/sales/lead/'' url then Inr ''sales_navigator_profile''
      else if str_in ''/sales/search/'' url \<or> str_in ''/sales/lists/'' url
        then Inr ''sales_navigator_search''
      else if str_in ''/in/'' url then
        (case find_element E s ''.pv-text-details__right-panel'' of
           Inr el \<Rightarrow> Inr ''authenticated_profile''
         | Inl NoSuchElementException \<Rightarrow> Inr ''public_profile''
         | Inl OtherException \<Rightarrow> Inl OtherException)
      else if str_in ''/company/'' url then Inr ''company_page''
      else Inr ''unknown'')"

section \<open>Selector loops\<close>

text \<open>
  Every field is filled by the same loop: \<open>for selector in selectors: try: ... break\<close>.
  \<open>attempt selector\<close> is the body of the loop: \<open>Inr (Some v)\<close> when it assigns \<open>v\<close>
  and breaks, \<open>Inr None\<close> when it goes on to the next selector (nothing usable found,
  or an exception its own handler catches), \<open>Inl e\<close> when an exception leaves the loop.
\<close>

fun first_match :: "(string \<Rightarrow> exn + 'a option) \<Rightarrow> string list \<Rightarrow> exn + 'a option" where
  "first_match attempt [] = Inr None"
| "first_match attempt (selector # selectors) =
     (case attempt selector of
        Inl e \<Rightarrow> Inl e
      | Inr None \<Rightarrow> first_match attempt selectors
      | Inr (Some v) \<Rightarrow> Inr (Some v))"

text \<open>
  \<open>elem = soup.select_one(selector); if elem and elem.get_text(strip=True): ...\<close>
  under a bare \<open>except: continue\<close>.
\<close>

definition soup_text :: "('s, 'e) env \<Rightarrow> string \<Rightarrow> string \<Rightarrow> exn + string option" where
  "soup_text E markup selector =
     (case soup_select_one E markup selector of
        Inl e \<Rightarrow> Inr None
      | Inr None \<Rightarrow> Inr None
      | Inr (Some t) \<Rightarrow> if t \<noteq> [] then Inr (Some t) else Inr None)"

text \<open>
  \<open>elem = lookup(selector); if elem.text.strip() and ok: ...\<close> under
  \<open>except NoSuchElementException: continue\<close>; \<open>lookup\<close> is \<open>driver.find_element\<close> or
  \<open>card.find_element\<close>.
\<close>

definition element_text ::
  "('s, 'e) env \<Rightarrow> 's \<Rightarrow> (string \<Rightarrow> exn + 'e) \<Rightarrow> (string \<Rightarrow> bool) \<Rightarrow> string
   \<Rightarrow> exn + string option" where
  "element_text E s lookup ok selector =
     (case lookup selector of
        Inl NoSuchElementException \<Rightarrow> Inr None
      | Inl OtherException \<Rightarrow> Inl OtherException
      | Inr el \<Rightarrow>
          (let t = strip (elem_text E s el) in
           if t \<noteq> [] \<and> ok t then Inr (Some t) else Inr None))"

section \<open>Pattern extraction\<close>

text \<open>
  The inner loops of \<open>_extract_sales_navigator_contact_info\<close>: the first argument is
  what \<open>re.findall\<close> returned, the second the list collected so far.
  \<^verbatim>\<open>
  for email in emails:
      if email not in profile.emails and '@' in email:
          profile.emails.append(email.lower())
  \<close>
\<close>

fun collect_emails :: "string list \<Rightarrow> string list \<Rightarrow> string list" where
  "collect_emails [] collected = collected"
| "collect_emails (email # rest) collected =
     collect_emails rest
       (if email \<notin> set collected \<and> str_in ''@'' email
        then collected @ [lower email] else collected)"

text \<open>
  \<^verbatim>\<open>
  for phone in phones:
      cleaned_phone = re.sub(r'[^\d+]', '', phone)
      if len(cleaned_phone) >= 10 and cleaned_phone not in profile.phones:
          profile.phones.append(phone)
  \<close>
\<close>

definition cleaned_phone :: "string \<Rightarrow> string" where
  "cleaned_phone phone = filter (\<lambda>c. is_digit c \<or> c = CHR ''+'') phone"

fun collect_phones :: "string list \<Rightarrow> string list \<Rightarrow> string list" where
  "collect_phones [] collected = collected"
| "collect_phones (phone # rest) collected =
     collect_phones rest
       (if length (cleaned_phone phone) \<ge> 10 \<and> cleaned_phone phone \<notin> set collected
        then collected @ [phone] else collected)"

text \<open>
  \<^verbatim>\<open>
  for website in websites:
      if website not in profile.websites and 'linkedin.com' not in website:
          profile.websites.append(website)
  \<close>
\<close>

fun collect_websites :: "string list \<Rightarrow> string list \<Rightarrow> string list" where
  "collect_websites [] collected = collected"
| "collect_websites (website # rest) collected =
     collect_websites rest
       (if website \<notin> set collected \<and> \<not> str_in ''linkedin.com'' website
        then collected @ [website] else collected)"

text \<open>
  The three loops have one shape: a match is appended, as \<open>out m\<close>, when its
  comparison key \<open>key m\<close> is not in the list and \<open>guard m\<close> holds. The proofs below
  go through this shape.
\<close>

fun collect_by ::
  "('a \<Rightarrow> 'b) \<Rightarrow> ('a \<Rightarrow> 'b) \<Rightarrow> ('a \<Rightarrow> bool) \<Rightarrow> 'a list \<Rightarrow> 'b list \<Rightarrow> 'b list" where
  "collect_by key out guard [] collected = collected"
| "collect_by key out guard (m # ms) collected =
     collect_by key out guard ms
       (if key m \<notin> set collected \<and> guard m then collected @ [out m] else collected)"

text \<open>
  The three steps over the markup of the base page (the \<open>for pattern in ...\<close> loops
  of \<open>_extract_sales_navigator_contact_info\<close>). Emails and websites are searched with
  \<open>re.IGNORECASE\<close>, phones without.
\<close>

definition email_patterns :: "rx list" where
  "email_patterns = [email_pattern_1, email_pattern_2]"

definition phone_patterns :: "rx list" where
  "phone_patterns = [phone_pattern_1, phone_pattern_2, phone_pattern_3]"

definition url_patterns :: "rx list" where
  "url_patterns = [url_pattern_1, url_pattern_2]"

definition extract_emails :: "('s, 'e) env \<Rightarrow> string \<Rightarrow> string list \<Rightarrow> string list" where
  "extract_emails E markup collected =
     fold (\<lambda>pattern. collect_emails (findall E pattern True markup)) email_patterns collected"

definition extract_phones :: "('s, 'e) env \<Rightarrow> string \<Rightarrow> string list \<Rightarrow> string list" where
  "extract_phones E markup collected =
     fold (\<lambda>pattern. collect_phones (findall E pattern False markup)) phone_patterns collected"

definition extract_websites :: "('s, 'e) env \<Rightarrow> string \<Rightarrow> string list \<Rightarrow> string list" where
  "extract_websites E markup collected =
     fold (\<lambda>pattern. collect_websites (findall E pattern True markup)) url_patterns collected"

definition pattern_extract ::
  "('s, 'e) env \<Rightarrow> string \<Rightarrow> LinkedInProfile \<Rightarrow> LinkedInProfile" where
  "pattern_extract E markup profile =
     profile\<lparr> emails := extract_emails E markup (emails profile),
              phones := extract_phones E markup (phones profile),
              websites := extract_websites E markup (websites profile) \<rparr>"

text \<open>
  The scan of the contact modal (no \<open>'@'\<close> test, no \<open>re.IGNORECASE\<close>):
  \<^verbatim>\<open>
  for email in modal_emails:
      if email not in profile.emails:
          profile.emails.append(email.lower())
  \<close>
\<close>

fun collect_modal_emails :: "string list \<Rightarrow> string list \<Rightarrow> string list" where
  "collect_modal_emails [] collected = collected"
| "collect_modal_emails (email # rest) collected =
     collect_modal_emails rest
       (if email \<notin> set collected then collected @ [lower email] else collected)"

text \<open>
  One contact button: click it, read the markup, scan it, try to close the modal. An
  exception of the click or of the read is caught by \<open>except Exception: continue\<close>,
  one of closing by the bare \<open>except: pass\<close>; the session keeps the state it had
  reached.
\<close>

definition visit_contact_modal ::
  "('s, 'e) env \<Rightarrow> 'e \<Rightarrow> LinkedInProfile \<times> 's \<Rightarrow> LinkedInProfile \<times> 's" where
  "visit_contact_modal E button ps =
     (let profile = fst ps; s = snd ps in
      case elem_click E s button of
        Inl e \<Rightarrow> (profile, s)
      | Inr s1 \<Rightarrow>
         (case page_source E s1 of
            Inl e \<Rightarrow> (profile, s1)
          | Inr modal_content \<Rightarrow>
             (let profile = profile\<lparr> emails :=
                    collect_modal_emails (findall E email_pattern_1 False modal_content)
                      (emails profile) \<rparr> in
              case find_element E s1 ''button[aria-label='Close'], .artdeco-modal__dismiss'' of
                Inl e \<Rightarrow> (profile, s1)
              | Inr close_button \<Rightarrow>
                 (case elem_click E s1 close_button of
                    Inl e \<Rightarrow> (profile, s1)
                  | Inr s2 \<Rightarrow> (profile, s2)))))"

text \<open>
  \<open>_extract_sales_navigator_contact_info\<close>: everything sits in
  \<open>try: ... except Exception\<close>, so the method always returns; it visits
  \<open>contact_buttons[:2]\<close>.
\<close>

definition extract_sales_navigator_contact_info ::
  "('s, 'e) env \<Rightarrow> LinkedInProfile \<times> 's \<Rightarrow> LinkedInProfile \<times> 's" where
  "extract_sales_navigator_contact_info E ps =
     (let profile = fst ps; s = snd ps in
      case page_source E s of
        Inl e \<Rightarrow> (profile, s)
      | Inr markup \<Rightarrow>
         (let profile = pattern_extract E markup profile in
          case find_elements E s ''button[aria-label*='contact'], .contact-info'' of
            Inl e \<Rightarrow> (profile, s)
          | Inr contact_buttons \<Rightarrow>
              fold (visit_contact_modal E) (take 2 contact_buttons) (profile, s)))"

text \<open>
  \<open>_extract_contact_info\<close> (regular profiles): click the contact link, then extend
  each list by a comprehension over the matches, which is evaluated before
  \<open>extend\<close> runs:
  \<^verbatim>\<open>
  profile.emails.extend([email.lower() for email in emails if email not in profile.emails])
  profile.phones.extend([phone for phone in phones if phone not in profile.phones])
  profile.websites.extend([site for site in websites
                           if site not in profile.websites and 'linkedin.com' not in site])
  \<close>
\<close>

definition extend_emails :: "string list \<Rightarrow> string list \<Rightarrow> string list" where
  "extend_emails found collected =
     collected @ map lower (filter (\<lambda>email. email \<notin> set collected) found)"

definition extend_phones :: "string list \<Rightarrow> string list \<Rightarrow> string list" where
  "extend_phones found collected =
     collected @ filter (\<lambda>phone. phone \<notin> set collected) found"

definition extend_websites :: "string list \<Rightarrow> string list \<Rightarrow> string list" where
  "extend_websites found collected =
     collected @ filter (\<lambda>site. site \<notin> set collected \<and> \<not> str_in ''linkedin.com'' site) found"

definition scan_contact_modal ::
  "('s, 'e) env \<Rightarrow> string \<Rightarrow> LinkedInProfile \<Rightarrow> LinkedInProfile" where
  "scan_contact_modal E markup profile =
     profile\<lparr> emails := extend_emails (findall E email_pattern_1 False markup) (emails profile),
              phones := extend_phones (findall E phone_pattern_1 False markup) (phones profile),
              websites := extend_websites (findall E url_pattern_1 False markup) (websites profile) \<rparr>"

definition extract_contact_info ::
  "('s, 'e) env \<Rightarrow> LinkedInProfile \<times> 's \<Rightarrow> LinkedInProfile \<times> 's" where
  "extract_contact_info E ps =
     (let profile = fst ps; s = snd ps in
      case find_element E s ''a[data-control-name='contact_see_more']'' of
        Inl e \<Rightarrow> (profile, s)
      | Inr contact_button \<Rightarrow>
         (case elem_click E s contact_button of
            Inl e \<Rightarrow> (profile, s)
          | Inr s1 \<Rightarrow>
             (case page_source E s1 of
                Inl e \<Rightarrow> (profile, s1)
              | Inr markup \<Rightarrow>
                 (let profile = scan_contact_modal E markup profile in
                  case find_element E s1 ''button[aria-label='Dismiss'], .artdeco-modal__dismiss'' of
                    Inl e \<Rightarrow> (profile, s1)
                  | Inr close_button \<Rightarrow>
                     (case elem_click E s1 close_button of
                        Inl e \<Rightarrow> (profile, s1)
                      | Inr s2 \<Rightarrow> (profile, s2))))))"

section \<open>Profile extraction\<close>

text \<open>Assigning the result of a selector loop: the field keeps its value when nothing matched.\<close>

definition or_keep :: "'a option \<Rightarrow> 'a \<Rightarrow> 'a" where
  "or_keep found current = (case found of None \<Rightarrow> current | Some v \<Rightarrow> v)"

text \<open>
  \<open>_extract_about_section\<close>: the first selector whose stripped text is longer than 20
  characters; any exception other than a missing element ends the method silently.
\<close>

definition about_selectors :: "string list" where
  "about_selectors = [''.pv-about__text'', ''.summary'', ''[data-section='summary']'',
     ''.pv-about-section .pv-about__text'']"

definition extract_about_section ::
  "('s, 'e) env \<Rightarrow> 's \<Rightarrow> LinkedInProfile \<Rightarrow> LinkedInProfile" where
  "extract_about_section E s profile =
     (case first_match (element_text E s (find_element E s) (\<lambda>t. length t > 20))
             about_selectors of
        Inl e \<Rightarrow> profile
      | Inr found \<Rightarrow> profile\<lparr> about := or_keep found (about profile) \<rparr>)"

text \<open>
  \<open>_extract_linkedin_profile_url\<close>: the first selector whose element has an
  \<open>href\<close> containing \<open>/in/\<close>.
\<close>

definition profile_link_selectors :: "string list" where
  "profile_link_selectors = [''a[href*='/in/']'', ''.profile-topcard-person-entity__name a'',
     ''a[data-control-name='view_linkedin']'']"

definition profile_link :: "('s, 'e) env \<Rightarrow> 's \<Rightarrow> string \<Rightarrow> exn + string option" where
  "profile_link E s selector =
     (case find_element E s selector of
        Inl NoSuchElementException \<Rightarrow> Inr None
      | Inl OtherException \<Rightarrow> Inl OtherException
      | Inr link_elem \<Rightarrow>
          (case elem_get_attribute E s link_elem ''href'' of
             None \<Rightarrow> Inr None
           | Some href \<Rightarrow> if href \<noteq> [] \<and> str_in ''/in/'' href then Inr (Some href) else Inr None))"

definition extract_linkedin_profile_url ::
  "('s, 'e) env \<Rightarrow> 's \<Rightarrow> LinkedInProfile \<Rightarrow> LinkedInProfile" where
  "extract_linkedin_profile_url E s profile =
     (case first_match (profile_link E s) profile_link_selectors of
        Inl e \<Rightarrow> profile
      | Inr found \<Rightarrow> profile\<lparr> linkedin_url := or_keep found (linkedin_url profile) \<rparr>)"

subsection \<open>extract_sales_navigator_profile\<close>

definition sn_name_selectors :: "string list" where
  "sn_name_selectors = [''.profile-topcard-person-entity__name'',
     ''.artdeco-entity-lockup__title'', ''.profile-topcard__name'', ''h1'']"

definition sn_role_selectors :: "string list" where
  "sn_role_selectors = [''.profile-topcard-person-entity__title'',
     ''.artdeco-entity-lockup__subtitle'', ''.profile-topcard__occupation'']"

definition sn_company_selectors :: "string list" where
  "sn_company_selectors = [''.profile-topcard-person-entity__company'',
     ''.profile-topcard__summary-company'']"

definition sn_location_selectors :: "string list" where
  "sn_location_selectors = [''.profile-topcard-person-entity__location'',
     ''.profile-topcard__summary-location'']"

text \<open>
  The four loops over the parsed markup catch everything themselves (bare
  \<open>except: continue\<close>), so \<open>first_match\<close> never returns \<open>Inl\<close> here; the three
  helper methods catch everything too. The outer handler is reached only when reading
  \<open>page_source\<close> fails.
\<close>

definition soup_field :: "('s, 'e) env \<Rightarrow> string \<Rightarrow> string list \<Rightarrow> string \<Rightarrow> string" where
  "soup_field E markup selectors current =
     (case first_match (soup_text E markup) selectors of
        Inl e \<Rightarrow> current
      | Inr found \<Rightarrow> or_keep found current)"

definition extract_sales_navigator_profile ::
  "('s, 'e) env \<Rightarrow> 's \<Rightarrow> LinkedInProfile \<times> 's" where
  "extract_sales_navigator_profile E s =
     (let profile = new_profile (utcnow E);
          profile = profile\<lparr> profile_type := ''sales_navigator'' \<rparr>;
          profile = profile\<lparr> linkedin_url := current_url E s \<rparr> in
      case page_source E s of
        Inl e \<Rightarrow> (profile\<lparr> extraction_success := False \<rparr>, s)
      | Inr markup \<Rightarrow>
         (let profile = profile\<lparr> full_name :=
                soup_field E markup sn_name_selectors (full_name profile) \<rparr>;
              profile = profile\<lparr> role :=
                soup_field E markup sn_role_selectors (role profile) \<rparr>;
              profile = profile\<lparr> company :=
                soup_field E markup sn_company_selectors (company profile) \<rparr>;
              profile = profile\<lparr> geography :=
                soup_field E markup sn_location_selectors (geography profile) \<rparr>;
              ps = extract_sales_navigator_contact_info E (profile, s);
              profile = extract_about_section E (snd ps) (fst ps);
              profile = extract_linkedin_profile_url E (snd ps) profile in
          (profile\<lparr> extraction_success := (full_name profile \<noteq> []) \<rparr>, snd ps)))"

subsection \<open>extract_regular_profile\<close>

definition name_selectors :: "string list" where
  "name_selectors = [''h1.text-heading-xlarge'', ''.pv-text-details__left-panel h1'',
     ''.ph5.pb5 h1'', ''h1'', ''.pv-top-card--list h1'']"

definition role_selectors :: "string list" where
  "role_selectors = [''.text-body-medium.break-words'',
     ''.pv-text-details__left-panel .text-body-medium'', ''.ph5.pb5 .text-body-medium'',
     ''.pv-top-card--list .text-body-medium'', ''div[data-generated-suggestion-target]'',
     ''.pv-entity__summary-info'']"

definition company_selectors :: "string list" where
  "company_selectors = [''.pv-text-details__left-panel .text-body-medium:contains('at')'',
     ''.experience-item__title'', ''.pv-entity__summary-info-v2'']"

definition location_selectors :: "string list" where
  "location_selectors = [''.text-body-small.inline.t-black--light.break-words'',
     ''.pv-text-details__left-panel .text-body-small'', ''[data-anonymize='location']'']"

text \<open>
  The role loop reads every element of a selector and takes the first text that is
  not a button label and has between 11 and 199 characters.
\<close>

definition role_ok :: "string \<Rightarrow> bool" where
  "role_ok t = (t \<noteq> []
     \<and> \<not> list_ex (\<lambda>skip. str_in skip (lower t))
           [''contact info'', ''message'', ''connect'', ''follow'']
     \<and> length t > 10 \<and> length t < 200)"

definition role_text :: "('s, 'e) env \<Rightarrow> 's \<Rightarrow> string \<Rightarrow> exn + string option" where
  "role_text E s selector =
     (case find_elements E s selector of
        Inl NoSuchElementException \<Rightarrow> Inr None
      | Inl OtherException \<Rightarrow> Inl OtherException
      | Inr role_elems \<Rightarrow>
          Inr (List.find role_ok (map (\<lambda>el. strip (elem_text E s el)) role_elems)))"

text \<open>\<open>text.split(sep)[-1]\<close>: what follows the last separator found from the left.\<close>

function split_last :: "string \<Rightarrow> string \<Rightarrow> string \<Rightarrow> string" where
  "split_last separator piece t =
     (if t = [] then piece
      else if separator \<noteq> [] \<and> startswith t separator
        then split_last separator [] (drop (length separator) t)
      else split_last separator (piece @ [hd t]) (tl t))"
  by pat_completeness auto
termination
  by (relation "measure (\<lambda>(separator, piece, t). length t)") auto

declare split_last.simps [simp del]

text \<open>
  The company loop. Its first selector is answered from the parsed markup: the first
  text with \<open>" at "\<close> whose last piece is non-empty and shorter than 100 characters;
  the \<open>break\<close> there leaves the inner loop only, so the later selectors still run and
  may overwrite the company. Every exception is caught by the bare \<open>except\<close>.
\<close>

definition company_part :: "string \<Rightarrow> string option" where
  "company_part t =
     (if str_in '' at '' t
      then (let part = split_last '' at '' [] t in
            if part \<noteq> [] \<and> length part < 100 then Some part else None)
      else None)"

fun first_company_part :: "string list \<Rightarrow> string option" where
  "first_company_part [] = None"
| "first_company_part (t # ts) =
     (case company_part t of None \<Rightarrow> first_company_part ts | Some part \<Rightarrow> Some part)"

fun company_loop ::
  "('s, 'e) env \<Rightarrow> 's \<Rightarrow> string list \<Rightarrow> LinkedInProfile \<Rightarrow> LinkedInProfile" where
  "company_loop E s [] profile = profile"
| "company_loop E s (selector # selectors) profile =
     (if str_in ''contains'' selector then
        (case page_source E s of
           Inl e \<Rightarrow> company_loop E s selectors profile
         | Inr markup \<Rightarrow>
            (case soup_select E markup ''.pv-text-details__left-panel .text-body-medium'' of
               Inl e \<Rightarrow> company_loop E s selectors profile
             | Inr texts \<Rightarrow>
                 company_loop E s selectors
                   (profile\<lparr> company := or_keep (first_company_part texts) (company profile) \<rparr>)))
      else
        (case find_element E s selector of
           Inl e \<Rightarrow> company_loop E s selectors profile
         | Inr el \<Rightarrow>
            (let t = strip (elem_text E s el) in
             if t \<noteq> [] then profile\<lparr> company := t \<rparr>
             else company_loop E s selectors profile)))"

text \<open>
  The body of the \<open>try\<close> block. It returns the record and the session as it leaves
  them, and the exception when one leaves the name, role or location loop or
  \<open>detect_page_type\<close>.
\<close>

definition regular_profile_try ::
  "('s, 'e) env \<Rightarrow> 's \<Rightarrow> LinkedInProfile \<Rightarrow> (LinkedInProfile \<times> 's) \<times> exn option" where
  "regular_profile_try E s profile =
     (case detect_page_type E s of
        Inl e \<Rightarrow> ((profile, s), Some e)
      | Inr page_type \<Rightarrow>
         (let profile = profile\<lparr> profile_type := page_type \<rparr> in
          case first_match (element_text E s (find_element E s) (\<lambda>t. True)) name_selectors of
            Inl e \<Rightarrow> ((profile, s), Some e)
          | Inr name \<Rightarrow>
             (let profile = profile\<lparr> full_name := or_keep name (full_name profile) \<rparr> in
              case first_match (role_text E s) role_selectors of
                Inl e \<Rightarrow> ((profile, s), Some e)
              | Inr found_role \<Rightarrow>
                 (let profile = profile\<lparr> role := or_keep found_role (role profile) \<rparr>;
                      profile = company_loop E s company_selectors profile in
                  case first_match (element_text E s (find_element E s) (\<lambda>t. length t < 100))
                         location_selectors of
                    Inl e \<Rightarrow> ((profile, s), Some e)
                  | Inr found_location \<Rightarrow>
                     (let profile = profile\<lparr> location :=
                            or_keep found_location (location profile) \<rparr>;
                          profile = extract_about_section E s profile;
                          ps = (if profile_type profile = ''authenticated_profile''
                                then extract_contact_info E (profile, s) else (profile, s)) in
                      (((fst ps)\<lparr> extraction_success := (full_name (fst ps) \<noteq> []) \<rparr>,
                        snd ps), None))))))"

text \<open>
  \<^verbatim>\<open>
  profile = LinkedInProfile()
  profile.linkedin_url = self.driver.current_url
  try:
      ...
  except Exception as e:
      profile.extraction_success = False
  return profile
  \<close>
\<close>

definition extract_regular_profile ::
  "('s, 'e) env \<Rightarrow> 's \<Rightarrow> LinkedInProfile \<times> 's" where
  "extract_regular_profile E s =
     (let profile = new_profile (utcnow E);
          profile = profile\<lparr> linkedin_url := current_url E s \<rparr>;
          r = regular_profile_try E s profile in
      case snd r of
        None \<Rightarrow> fst r
      | Some e \<Rightarrow> ((fst (fst r))\<lparr> extraction_success := False \<rparr>, snd (fst r)))"

subsection \<open>extract_sales_navigator_search_results\<close>

definition card_name_selectors :: "string list" where
  "card_name_selectors = [''.search-results__result-item__name'', ''.name'', ''h3'', ''h4'']"

definition card_role_selectors :: "string list" where
  "card_role_selectors = [''.search-results__result-item__title'', ''.title'', ''.subtitle'']"

definition card_company_selectors :: "string list" where
  "card_company_selectors =
     [''.search-results__result-item__company'', ''.company'', ''.organization'']"

definition card_location_selectors :: "string list" where
  "card_location_selectors =
     [''.search-results__result-item__location'', ''.location'', ''.geography'']"

text \<open>
  The body of the loop over the cards, up to \<open>if profile.extraction_success\<close>. An
  exception other than a missing element leaves it for the handler of the card.
\<close>

definition card_field ::
  "('s, 'e) env \<Rightarrow> 's \<Rightarrow> 'e \<Rightarrow> string list \<Rightarrow> exn + string option" where
  "card_field E s card_el selectors =
     first_match (element_text E s (elem_find_element E s card_el) (\<lambda>t. True)) selectors"

definition card_link :: "('s, 'e) env \<Rightarrow> 's \<Rightarrow> 'e \<Rightarrow> exn + string option" where
  "card_link E s card_el =
     (case elem_find_element E s card_el ''a'' of
        Inl NoSuchElementException \<Rightarrow> Inr None
      | Inl OtherException \<Rightarrow> Inl OtherException
      | Inr link_elem \<Rightarrow>
          (case elem_get_attribute E s link_elem ''href'' of
             None \<Rightarrow> Inr None
           | Some href \<Rightarrow> if href \<noteq> [] then Inr (Some href) else Inr None))"

definition extract_card :: "('s, 'e) env \<Rightarrow> 's \<Rightarrow> 'e \<Rightarrow> exn + LinkedInProfile" where
  "extract_card E s card_el =
     (let profile = new_profile (utcnow E);
          profile = profile\<lparr> profile_type := ''sales_navigator_search'' \<rparr> in
      case card_field E s card_el card_name_selectors of
        Inl e \<Rightarrow> Inl e
      | Inr name \<Rightarrow>
     (case card_field E s card_el card_role_selectors of
        Inl e \<Rightarrow> Inl e
      | Inr found_role \<Rightarrow>
     (case card_field E s card_el card_company_selectors of
        Inl e \<Rightarrow> Inl e
      | Inr found_company \<Rightarrow>
     (case card_field E s card_el card_location_selectors of
        Inl e \<Rightarrow> Inl e
      | Inr found_location \<Rightarrow>
     (case card_link E s card_el of
        Inl e \<Rightarrow> Inl e
      | Inr href \<Rightarrow>
          (let profile = profile\<lparr> full_name := or_keep name (full_name profile),
                                   role := or_keep found_role (role profile),
                                   company := or_keep found_company (company profile),
                                   geography := or_keep found_location (geography profile),
                                   linkedin_url := or_keep href (linkedin_url profile) \<rparr> in
           Inr (profile\<lparr> extraction_success := (full_name profile \<noteq> []) \<rparr>)))))))"

text \<open>
  \<^verbatim>\<open>
  for i, card in enumerate(profile_cards[:10]):
      try:
          ...
          if profile.extraction_success:
              profiles.append(profile)
      except Exception as e:
          continue
  \<close>
\<close>

fun card_loop ::
  "('s, 'e) env \<Rightarrow> 's \<Rightarrow> 'e list \<Rightarrow> LinkedInProfile list \<Rightarrow> LinkedInProfile list" where
  "card_loop E s [] profiles = profiles"
| "card_loop E s (card_el # cards) profiles =
     card_loop E s cards
       (case extract_card E s card_el of
          Inl e \<Rightarrow> profiles
        | Inr profile \<Rightarrow>
            if extraction_success profile then profiles @ [profile] else profiles)"

definition extract_sales_navigator_search_results ::
  "('s, 'e) env \<Rightarrow> 's \<Rightarrow> LinkedInProfile list" where
  "extract_sales_navigator_search_results E s =
     (case find_elements E s ''.search-results__result-item'' of
        Inl e \<Rightarrow> []
      | Inr profile_cards \<Rightarrow>
         (case (if profile_cards = [] then find_elements E s ''[data-anonymize='person']''
                else Inr profile_cards) of
            Inl e \<Rightarrow> []
          | Inr profile_cards \<Rightarrow> card_loop E s (take 10 profile_cards) []))"

subsection \<open>extract_profile\<close>

text \<open>The method returns one record or, for a search page, a list of records.\<close>

datatype extraction = Single LinkedInProfile | Many "LinkedInProfile list"

text \<open>
  \<open>if url: self.driver.get(url)\<close>. Navigation and \<open>detect_page_type\<close> run outside
  any handler: an exception there leaves \<open>extract_profile\<close>.
\<close>

definition navigate :: "('s, 'e) env \<Rightarrow> string option \<Rightarrow> 's \<Rightarrow> exn + 's" where
  "navigate E url s =
     (case url of
        None \<Rightarrow> Inr s
      | Some u \<Rightarrow> if u \<noteq> [] then driver_get E s u else Inr s)"

definition extract_profile ::
  "('s, 'e) env \<Rightarrow> string option \<Rightarrow> 's \<Rightarrow> exn + extraction \<times> 's" where
  "extract_profile E url s =
     (case navigate E url s of
        Inl e \<Rightarrow> Inl e
      | Inr s \<Rightarrow>
         (case detect_page_type E s of
            Inl e \<Rightarrow> Inl e
          | Inr page_type \<Rightarrow>
              if page_type = ''sales_navigator_profile'' then
                (let r = extract_sales_navigator_profile E s in Inr (Single (fst r), snd r))
              else if page_type = ''sales_navigator_search'' then
                Inr (Many (extract_sales_navigator_search_results E s), s)
              else if page_type \<in> set [''authenticated_profile'', ''public_profile''] then
                (let r = extract_regular_profile E s in Inr (Single (fst r), snd r))
              else Inr (Single (new_profile (utcnow E)), s)))"

section \<open>A scripted session\<close>

text \<open>
  A browser session that serves one fixed page, for running the extractor on concrete
  input: the page has an address, its markup, and the elements each selector finds; an
  element has its text, its \<open>href\<close> and the elements found inside it. Clicks leave the
  page as it is, the parser stand-in answers the selector \<open>h1\<close> from the text between
  the first \<open><h1>\<close> and \<open></h1>\<close>, and \<open>re.findall\<close> is the matcher above.
\<close>

datatype element =
  Element (text_of: string) (href_of: "string option") (inner: "(string \<times> element) list")

record page =
  page_url :: string
  page_markup :: string
  page_dom :: "(string \<times> element list) list"

fun text_after :: "string \<Rightarrow> string \<Rightarrow> string option" where
  "text_after marker [] = (if marker = [] then Some [] else None)"
| "text_after marker (c # cs) =
     (if startswith (c # cs) marker then Some (drop (length marker) (c # cs))
      else text_after marker cs)"

fun text_before :: "string \<Rightarrow> string \<Rightarrow> string option" where
  "text_before marker [] = (if marker = [] then Some [] else None)"
| "text_before marker (c # cs) =
     (if startswith (c # cs) marker then Some []
      else map_option ((#) c) (text_before marker cs))"

definition h1_text :: "string \<Rightarrow> string option" where
  "h1_text markup =
     (case text_after ''<h1>'' markup of
        None \<Rightarrow> None
      | Some t \<Rightarrow> map_option strip (text_before ''</h1>'' t))"

definition scripted :: "(page, element) env" where
  "scripted = \<lparr>
     current_url = page_url,
     page_source = (\<lambda>s. Inr (page_markup s)),
     find_element = (\<lambda>s selector. case map_of (page_dom s) selector of
                        Some (el # els) \<Rightarrow> Inr el
                      | _ \<Rightarrow> Inl NoSuchElementException),
     find_elements = (\<lambda>s selector. case map_of (page_dom s) selector of
                        Some els \<Rightarrow> Inr els
                      | None \<Rightarrow> Inr []),
     elem_find_element = (\<lambda>s el selector. case map_of (inner el) selector of
                        Some child \<Rightarrow> Inr child
                      | None \<Rightarrow> Inl NoSuchElementException),
     elem_text = (\<lambda>s el. text_of el),
     elem_get_attribute = (\<lambda>s el name. if name = ''href'' then href_of el else None),
     elem_click = (\<lambda>s el. Inr s),
     driver_get = (\<lambda>s u. Inr (s\<lparr> page_url := u \<rparr>)),
     soup_select_one = (\<lambda>markup selector.
                        Inr (if selector = ''h1'' then h1_text markup else None)),
     soup_select = (\<lambda>markup selector. Inr []),
     findall = re_findall,
     utcnow = ''2024-01-01T00:00:00'' \<rparr>"

text \<open>The same session, except that \<open>find_elements\<close> fails with a WebDriver error.\<close>

definition broken :: "(page, element) env" where
  "broken = scripted\<lparr> find_elements := (\<lambda>s selector. Inl OtherException) \<rparr>"

text \<open>A company page, a public and an authenticated profile, a lead, a result list.\<close>

definition company_page :: page where
  "company_page = \<lparr> page_url = ''https://linkedin.com/company/acme'',
     page_markup = ''<h1>Acme</h1> mail info@acme.example'', page_dom = [] \<rparr>"

definition public_page :: page where
  "public_page = \<lparr> page_url = ''https://www.linkedin.com/in/alice'',
     page_markup = ''<h1>Alice Doe</h1> alice@example.com https://alice.example'',
     page_dom = [(''h1'', [Element ''  Alice Doe '' None []])] \<rparr>"

definition member_page :: page where
  "member_page = \<lparr> page_url = ''https://www.linkedin.com/in/alice'',
     page_markup = ''<a href='https://janedoe.dev'>https://janedoe.dev</a>'',
     page_dom = [(''h1'', [Element ''Alice Doe'' None []]),
                 (''.pv-text-details__right-panel'', [Element [] None []]),
                 (''a[data-control-name='contact_see_more']'', [Element ''Contact info'' None []])] \<rparr>"

definition lead_page :: page where
  "lead_page = \<lparr> page_url = ''https://www.linkedin.com/sales/lead/123'',
     page_markup = ''<h1>Jane Doe</h1> Jane@Example.COM, Jane@Example.COM'',
     page_dom = [] \<rparr>"

definition phone_page :: page where
  "phone_page = \<lparr> page_url = ''https://www.linkedin.com/sales/lead/123'',
     page_markup = ''call (415) 555-0100'', page_dom = [] \<rparr>"

definition named_card :: "string \<Rightarrow> element" where
  "named_card n = Element [] None [(''.name'', Element n None [])]"

definition search_page :: page where
  "search_page = \<lparr> page_url = ''https://www.linkedin.com/sales/search/people'',
     page_markup = [],
     page_dom = [(''.search-results__result-item'',
        [named_card ''Ann'', Element [] None [], named_card ''Bob'', named_card ''Cy'',
         named_card ''Di'', named_card ''Ed'', named_card ''Flo'', named_card ''Gus'',
         named_card ''Hal'', named_card ''Ida'', named_card ''Jo'', named_card ''Kim''])] \<rparr>"

section \<open>The shape of the collecting loops\<close>

lemma collect_emails_by:
  "collect_emails ms acc = collect_by (\<lambda>m. m) lower (str_in ''@'') ms acc"
  by (induction ms arbitrary: acc) simp_all

lemma collect_phones_by:
  "collect_phones ms acc =
     collect_by cleaned_phone (\<lambda>m. m) (\<lambda>m. length (cleaned_phone m) \<ge> 10) ms acc"
  by (induction ms arbitrary: acc) (simp_all add: conj_commute)

lemma collect_websites_by:
  "collect_websites ms acc =
     collect_by (\<lambda>m. m) (\<lambda>m. m) (\<lambda>m. \<not> str_in ''linkedin.com'' m) ms acc"
  by (induction ms arbitrary: acc) simp_all

lemma collect_by_append:
  "collect_by key out guard (ms @ ns) acc =
     collect_by key out guard ns (collect_by key out guard ms acc)"
  by (induction ms arbitrary: acc) simp_all

text \<open>A run only appends, and what it appends are outputs of guarded matches.\<close>

lemma collect_by_grows:
  "\<exists>new. collect_by key out guard ms acc = acc @ new
         \<and> set new \<subseteq> out ` {m \<in> set ms. guard m}"
proof (induction ms arbitrary: acc)
  case Nil
  show ?case by simp
next
  case (Cons m ms)
  let ?acc1 = "if key m \<notin> set acc \<and> guard m then acc @ [out m] else acc"
  from Cons.IH [of ?acc1] obtain new where
    n: "collect_by key out guard ms ?acc1 = ?acc1 @ new"
       "set new \<subseteq> out ` {m \<in> set ms. guard m}"
    by blast
  show ?case
  proof (cases "key m \<notin> set acc \<and> guard m")
    case True
    with n have "collect_by key out guard (m # ms) acc = acc @ (out m # new)" by simp
    moreover from n True have "set (out m # new) \<subseteq> out ` {x \<in> set (m # ms). guard x}"
      by auto
    ultimately show ?thesis by blast
  next
    case False
    with n have "collect_by key out guard (m # ms) acc = acc @ new" by auto
    moreover from n have "set new \<subseteq> out ` {x \<in> set (m # ms). guard x}" by auto
    ultimately show ?thesis by blast
  qed
qed

lemma collect_by_mono: "set acc \<subseteq> set (collect_by key out guard ms acc)"
  using collect_by_grows [of key out guard ms acc] by auto

text \<open>After a run, every guarded match has its key or its output in the list.\<close>

lemma collect_by_seen:
  "m \<in> set ms \<Longrightarrow> guard m \<Longrightarrow>
     key m \<in> set (collect_by key out guard ms acc)
     \<or> out m \<in> set (collect_by key out guard ms acc)"
proof (induction ms arbitrary: acc)
  case Nil
  then show ?case by simp
next
  case (Cons x ms)
  let ?acc1 = "if key x \<notin> set acc \<and> guard x then acc @ [out x] else acc"
  show ?case
  proof (cases "m = x")
    case True
    with Cons.prems have "key m \<in> set ?acc1 \<or> out m \<in> set ?acc1" by auto
    with collect_by_mono [of ?acc1 key out guard ms] show ?thesis by auto
  next
    case False
    with Cons.prems have "m \<in> set ms" by simp
    from Cons.IH [OF this Cons.prems(2), of ?acc1] show ?thesis by simp
  qed
qed

text \<open>From such a list, a run appends only values the list already holds.\<close>

lemma collect_by_stable:
  "\<forall>m \<in> set ms. guard m \<longrightarrow> key m \<in> set acc \<or> out m \<in> set acc \<Longrightarrow>
     \<exists>more. collect_by key out guard ms acc = acc @ more \<and> set more \<subseteq> set acc"
proof (induction ms arbitrary: acc)
  case Nil
  show ?case by simp
next
  case (Cons x ms)
  let ?acc1 = "if key x \<notin> set acc \<and> guard x then acc @ [out x] else acc"
  from Cons.prems have s1: "set ?acc1 = set acc" by auto
  with Cons.prems
  have "\<forall>m \<in> set ms. guard m \<longrightarrow> key m \<in> set ?acc1 \<or> out m \<in> set ?acc1" by simp
  from Cons.IH [OF this] obtain more where
    m: "collect_by key out guard ms ?acc1 = ?acc1 @ more" "set more \<subseteq> set ?acc1" by blast
  show ?case
  proof (cases "key x \<notin> set acc \<and> guard x")
    case True
    with m have "collect_by key out guard (x # ms) acc = acc @ (out x # more)" by simp
    moreover from m s1 True have "set (out x # more) \<subseteq> set acc" by auto
    ultimately show ?thesis by blast
  next
    case False
    with m have "collect_by key out guard (x # ms) acc = acc @ more" by auto
    moreover from m s1 have "set more \<subseteq> set acc" by simp
    ultimately show ?thesis by blast
  qed
qed

lemma collect_by_twice:
  "\<exists>more. collect_by key out guard ms (collect_by key out guard ms acc)
            = collect_by key out guard ms acc @ more
          \<and> set more \<subseteq> set (collect_by key out guard ms acc)"
  by (rule collect_by_stable) (simp add: collect_by_seen)

lemma collect_by_same_key_stable:
  "\<forall>m \<in> set ms. guard m \<longrightarrow> key m \<in> set acc \<Longrightarrow> collect_by key out guard ms acc = acc"
  by (induction ms arbitrary: acc) auto

lemma collect_by_same_key_twice:
  "collect_by key key guard ms (collect_by key key guard ms acc)
     = collect_by key key guard ms acc"
proof (rule collect_by_same_key_stable, intro ballI impI)
  fix m assume "m \<in> set ms" "guard m"
  then have "key m \<in> set (collect_by key key guard ms acc)
      \<or> key m \<in> set (collect_by key key guard ms acc)"
    by (rule collect_by_seen [where key = key and out = key and guard = guard])
  then show "key m \<in> set (collect_by key key guard ms acc)" by simp
qed

text \<open>The loops over the patterns are one run over all the matches.\<close>

lemma extract_emails_by:
  "extract_emails E markup acc =
     collect_by (\<lambda>m. m) lower (str_in ''@'')
       (findall E email_pattern_1 True markup @ findall E email_pattern_2 True markup) acc"
  by (simp add: extract_emails_def email_patterns_def collect_emails_by collect_by_append)

lemma extract_phones_by:
  "extract_phones E markup acc =
     collect_by cleaned_phone (\<lambda>m. m) (\<lambda>m. length (cleaned_phone m) \<ge> 10)
       (findall E phone_pattern_1 False markup @ findall E phone_pattern_2 False markup
          @ findall E phone_pattern_3 False markup) acc"
  by (simp add: extract_phones_def phone_patterns_def collect_phones_by collect_by_append)

lemma extract_websites_by:
  "extract_websites E markup acc =
     collect_by (\<lambda>m. m) (\<lambda>m. m) (\<lambda>m. \<not> str_in ''linkedin.com'' m)
       (findall E url_pattern_1 True markup @ findall E url_pattern_2 True markup) acc"
  by (simp add: extract_websites_def url_patterns_def collect_websites_by collect_by_append)

lemma extract_emails_twice:
  "\<exists>more. extract_emails E markup (extract_emails E markup acc)
            = extract_emails E markup acc @ more
          \<and> set more \<subseteq> set (extract_emails E markup acc)"
  unfolding extract_emails_by by (rule collect_by_twice)

lemma extract_phones_twice:
  "\<exists>more. extract_phones E markup (extract_phones E markup acc)
            = extract_phones E markup acc @ more
          \<and> set more \<subseteq> set (extract_phones E markup acc)"
  unfolding extract_phones_by by (rule collect_by_twice)

lemma extract_websites_twice:
  "extract_websites E markup (extract_websites E markup acc) = extract_websites E markup acc"
  unfolding extract_websites_by by (rule collect_by_same_key_twice)

section \<open>Construction of a record\<close>

text \<open>
  C9. After construction the five contact lists of a \<open>LinkedInProfile\<close> are always
  present as lists, never absent: a list left out (the default \<open>None\<close>) is the empty
  list, a list passed in is kept, and the default-constructed record has all five
  empty.
\<close>

theorem contact_lists_after_construction:
  "emails (new_profile now) = [] \<and> phones (new_profile now) = []
   \<and> websites (new_profile now) = [] \<and> social_links (new_profile now) = []
   \<and> addresses (new_profile now) = []
   \<and> emails (post_init now a) = (case emails a of None \<Rightarrow> [] | Some xs \<Rightarrow> xs)
   \<and> phones (post_init now a) = (case phones a of None \<Rightarrow> [] | Some xs \<Rightarrow> xs)
   \<and> websites (post_init now a) = (case websites a of None \<Rightarrow> [] | Some xs \<Rightarrow> xs)
   \<and> social_links (post_init now a) = (case social_links a of None \<Rightarrow> [] | Some xs \<Rightarrow> xs)
   \<and> addresses (post_init now a) = (case addresses a of None \<Rightarrow> [] | Some xs \<Rightarrow> xs)"
  by (simp add: new_profile_def post_init_def default_kwargs_def none_to_empty_def)

section \<open>Page classification\<close>

text \<open>
  C3. \<open>detect_page_type\<close> decides in this order, the first match winning: an address
  with \<open>/sales/lead/\<close> is a Sales Navigator profile whatever the page holds; else one
  with \<open>/sales/search/\<close> or \<open>/sales/lists/\<close> is a Sales Navigator search; else one
  with \<open>/in/\<close> is an authenticated profile when the marker element is found and a
  public profile when it is missing; else one with \<open>/company/\<close> is a company page;
  anything else is unknown. The result depends on the address and on the outcome of
  the one probe only.
\<close>

theorem detect_page_type_decision_order:
  "(str_in ''/sales/lead/'' (current_url E s)
      \<longrightarrow> detect_page_type E s = Inr ''sales_navigator_profile'')
   \<and> (\<not> str_in ''/sales/lead/'' (current_url E s)
        \<and> (str_in ''/sales/search/'' (current_url E s)
            \<or> str_in ''/sales/lists/'' (current_url E s))
      \<longrightarrow> detect_page_type E s = Inr ''sales_navigator_search'')
   \<and> (\<not> str_in ''/sales/lead/'' (current_url E s)
        \<and> \<not> str_in ''/sales/search/'' (current_url E s)
        \<and> \<not> str_in ''/sales/lists/'' (current_url E s) \<and> str_in ''/in/'' (current_url E s)
      \<longrightarrow> (find_element E s ''.pv-text-details__right-panel'' = Inr el
             \<longrightarrow> detect_page_type E s = Inr ''authenticated_profile'')
        \<and> (find_element E s ''.pv-text-details__right-panel'' = Inl NoSuchElementException
             \<longrightarrow> detect_page_type E s = Inr ''public_profile''))
   \<and> (\<not> str_in ''/sales/lead/'' (current_url E s)
        \<and> \<not> str_in ''/sales/search/'' (current_url E s)
        \<and> \<not> str_in ''/sales/lists/'' (current_url E s)
        \<and> \<not> str_in ''/in/'' (current_url E s) \<and> str_in ''/company/'' (current_url E s)
      \<longrightarrow> detect_page_type E s = Inr ''company_page'')
   \<and> (\<not> str_in ''/sales/lead/'' (current_url E s)
        \<and> \<not> str_in ''/sales/search/'' (current_url E s)
        \<and> \<not> str_in ''/sales/lists/'' (current_url E s)
        \<and> \<not> str_in ''/in/'' (current_url E s) \<and> \<not> str_in ''/company/'' (current_url E s)
      \<longrightarrow> detect_page_type E s = Inr ''unknown'')
   \<and> (current_url E s = current_url E' s'
        \<and> map_sum id (\<lambda>el. ()) (find_element E s ''.pv-text-details__right-panel'')
          = map_sum id (\<lambda>el. ()) (find_element E' s' ''.pv-text-details__right-panel'')
      \<longrightarrow> detect_page_type E s = detect_page_type E' s')"
  unfolding detect_page_type_def Let_def
  by (auto split: sum.splits exn.splits)

theorem detect_page_type_decision_order_witness:
  "detect_page_type scripted lead_page = Inr ''sales_navigator_profile''
   \<and> detect_page_type scripted search_page = Inr ''sales_navigator_search''
   \<and> detect_page_type scripted member_page = Inr ''authenticated_profile''
   \<and> detect_page_type scripted public_page = Inr ''public_profile''
   \<and> detect_page_type scripted company_page = Inr ''company_page''
   \<and> detect_page_type scripted (company_page\<lparr> page_url := ''https://example.org/jobs'' \<rparr>)
       = Inr ''unknown''
   \<and> detect_page_type broken public_page = detect_page_type scripted public_page"
proof -
  have lead: "str_in ''/sales/lead/'' (current_url scripted lead_page)"
    by code_simp
  have search: "\<not> str_in ''/sales/lead/'' (current_url scripted search_page)
      \<and> (str_in ''/sales/search/'' (current_url scripted search_page)
          \<or> str_in ''/sales/lists/'' (current_url scripted search_page))"
    by code_simp
  have member: "\<not> str_in ''/sales/lead/'' (current_url scripted member_page)
      \<and> \<not> str_in ''/sales/search/'' (current_url scripted member_page)
      \<and> \<not> str_in ''/sales/lists/'' (current_url scripted member_page)
      \<and> str_in ''/in/'' (current_url scripted member_page)"
    "find_element scripted member_page ''.pv-text-details__right-panel''
       = Inr (Element [] None [])"
    by code_simp+
  have public: "\<not> str_in ''/sales/lead/'' (current_url scripted public_page)
      \<and> \<not> str_in ''/sales/search/'' (current_url scripted public_page)
      \<and> \<not> str_in ''/sales/lists/'' (current_url scripted public_page)
      \<and> str_in ''/in/'' (current_url scripted public_page)"
    "find_element scripted public_page ''.pv-text-details__right-panel''
       = Inl NoSuchElementException"
    by code_simp+
  have company: "\<not> str_in ''/sales/lead/'' (current_url scripted company_page)
      \<and> \<not> str_in ''/sales/search/'' (current_url scripted company_page)
      \<and> \<not> str_in ''/sales/lists/'' (current_url scripted company_page)
      \<and> \<not> str_in ''/in/'' (current_url scripted company_page)
      \<and> str_in ''/company/'' (current_url scripted company_page)"
    by code_simp
  let ?other = "company_page\<lparr> page_url := ''https://example.org/jobs'' \<rparr>"
  have other: "\<not> str_in ''/sales/lead/'' (current_url scripted ?other)
      \<and> \<not> str_in ''/sales/search/'' (current_url scripted ?other)
      \<and> \<not> str_in ''/sales/lists/'' (current_url scripted ?other)
      \<and> \<not> str_in ''/in/'' (current_url scripted ?other)
      \<and> \<not> str_in ''/company/'' (current_url scripted ?other)"
    by code_simp
  have same: "current_url broken public_page = current_url scripted public_page
      \<and> map_sum id (\<lambda>el. ())
            (find_element broken public_page ''.pv-text-details__right-panel'')
        = map_sum id (\<lambda>el. ())
            (find_element scripted public_page ''.pv-text-details__right-panel'')"
    by code_simp
  have 1: "detect_page_type scripted lead_page = Inr ''sales_navigator_profile''"
    using detect_page_type_decision_order
        [of scripted lead_page "Element [] None []" scripted lead_page] lead by simp
  have 2: "detect_page_type scripted search_page = Inr ''sales_navigator_search''"
    using detect_page_type_decision_order
        [of scripted search_page "Element [] None []" scripted search_page] search by simp
  have 3: "detect_page_type scripted member_page = Inr ''authenticated_profile''"
    using detect_page_type_decision_order
        [of scripted member_page "Element [] None []" scripted member_page] member
    by simp
  have 4: "detect_page_type scripted public_page = Inr ''public_profile''"
    using detect_page_type_decision_order
        [of scripted public_page "Element [] None []" scripted public_page] public by simp
  have 5: "detect_page_type scripted company_page = Inr ''company_page''"
    using detect_page_type_decision_order
        [of scripted company_page "Element [] None []" scripted company_page] company by simp
  have 6: "detect_page_type scripted ?other = Inr ''unknown''"
    using detect_page_type_decision_order
        [of scripted ?other "Element [] None []" scripted ?other] other by simp
  have 7: "detect_page_type broken public_page = detect_page_type scripted public_page"
    using detect_page_type_decision_order
        [of broken public_page "Element [] None []" scripted public_page] same
    by simp
  from 1 2 3 4 5 6 7 show ?thesis by simp
qed

section \<open>Pattern extraction\<close>

subsection \<open>What the steps append\<close>

text \<open>
  The email step only appends, and every entry it appends is the lowercase form of a
  match that holds an \<open>@\<close>.
\<close>

lemma extract_emails_appends:
  "\<exists>new. extract_emails E markup collected = collected @ new
     \<and> set new \<subseteq> lower ` {m \<in> set (findall E email_pattern_1 True markup
                                     @ findall E email_pattern_2 True markup). str_in ''@'' m}"
  unfolding extract_emails_by by (rule collect_by_grows)

text \<open>
  The phone step only appends, and every entry it appends is a match as it was found,
  whose key \<open>cleaned_phone\<close> (digits and \<open>+\<close>) has at least ten characters.
\<close>

lemma extract_phones_appends:
  "\<exists>new. extract_phones E markup collected = collected @ new
     \<and> set new \<subseteq> {m \<in> set (findall E phone_pattern_1 False markup
                              @ findall E phone_pattern_2 False markup
                              @ findall E phone_pattern_3 False markup).
                      length (cleaned_phone m) \<ge> 10}"
  using collect_by_grows [of cleaned_phone "\<lambda>m. m" "\<lambda>m. length (cleaned_phone m) \<ge> 10"
      "findall E phone_pattern_1 False markup @ findall E phone_pattern_2 False markup
         @ findall E phone_pattern_3 False markup" collected]
  unfolding extract_phones_by by simp

text \<open>
  The website loop of \<open>_extract_sales_navigator_contact_info\<close> only appends; what it
  appends has no repetition, was not in the list before, and does not contain
  \<open>linkedin.com\<close>.
\<close>

lemma collect_websites_appends:
  "\<exists>new. collect_websites ms acc = acc @ new \<and> distinct new \<and> set new \<inter> set acc = {}
     \<and> (\<forall>w \<in> set new. \<not> str_in ''linkedin.com'' w)"
proof (induction ms arbitrary: acc)
  case Nil
  show ?case by simp
next
  case (Cons m ms)
  let ?acc1 = "if m \<notin> set acc \<and> \<not> str_in ''linkedin.com'' m then acc @ [m] else acc"
  from Cons.IH [of ?acc1] obtain new where
    n: "collect_websites ms ?acc1 = ?acc1 @ new" "distinct new" "set new \<inter> set ?acc1 = {}"
       "\<forall>w \<in> set new. \<not> str_in ''linkedin.com'' w"
    by blast
  show ?case
  proof (cases "m \<notin> set acc \<and> \<not> str_in ''linkedin.com'' m")
    case True
    with n have "collect_websites (m # ms) acc = acc @ (m # new)" by simp
    moreover from n True have "distinct (m # new)" by auto
    moreover from n True have "set (m # new) \<inter> set acc = {}" by auto
    moreover from n True have "\<forall>w \<in> set (m # new). \<not> str_in ''linkedin.com'' w" by auto
    ultimately show ?thesis by blast
  next
    case False
    with n have "collect_websites (m # ms) acc = acc @ new" by auto
    moreover from n False have "set new \<inter> set acc = {}" by auto
    ultimately show ?thesis using n(2) n(4) by blast
  qed
qed

lemma extract_websites_appends:
  "\<exists>new. extract_websites E markup collected = collected @ new \<and> distinct new
     \<and> set new \<inter> set collected = {} \<and> (\<forall>w \<in> set new. \<not> str_in ''linkedin.com'' w)"
  using collect_websites_appends
      [of "findall E url_pattern_1 True markup @ findall E url_pattern_2 True markup" collected]
  unfolding extract_websites_by collect_websites_by .

text \<open>
  The comprehension of \<open>_extract_contact_info\<close> appends no match that contains
  \<open>linkedin.com\<close> or was in the list before; it does append a match as often as it
  was found.
\<close>

lemma extend_websites_appends:
  "\<exists>new. extend_websites found collected = collected @ new
     \<and> (\<forall>w \<in> set new. \<not> str_in ''linkedin.com'' w \<and> w \<notin> set collected)
     \<and> (\<forall>w. count_list new w
            = (if w \<notin> set collected \<and> \<not> str_in ''linkedin.com'' w
               then count_list found w else 0))"
proof -
  have "count_list (filter P xs) w = (if P w then count_list xs w else 0)"
    for P :: "string \<Rightarrow> bool" and xs w
    by (induction xs) auto
  then show ?thesis
    unfolding extend_websites_def by auto
qed

subsection \<open>Emails\<close>

text \<open>
  C2. For markup with an email address, the email step of
  \<open>_extract_sales_navigator_contact_info\<close> should put the lowercased address into
  the list exactly once, however often and in whatever case it occurs. The step tests
  the match as found against the list of lowercased entries, so an address written
  with a capital is never recognised: on a lead page whose markup reads
  \<open>Jane@Example.COM, Jane@Example.COM\<close> the list ends with two entries
  \<open>jane@example.com\<close>.
\<close>

theorem duplicate_email_on_lead_page:
  "page_markup lead_page = ''<h1>Jane Doe</h1> Jane@Example.COM, Jane@Example.COM''
   \<and> emails (fst (extract_sales_navigator_contact_info scripted
                 (new_profile (utcnow scripted), lead_page)))
       = [''jane@example.com'', ''jane@example.com'']"
  by code_simp

subsection \<open>Phones\<close>

text \<open>
  C4. A matched phone should be appended in its original form, and only if its
  stripped key has at least ten characters and no phone collected so far has the same
  key. The step looks the key up among the collected phones, which are kept in their
  original form, so a number written with brackets, blanks or dashes is never found
  again: on a lead page whose markup reads \<open>call (415) 555-0100\<close> the first and the
  third pattern both match the number and the list ends with two entries of key
  \<open>4155550100\<close>.
\<close>

theorem duplicate_phone_on_lead_page:
  "page_markup phone_page = ''call (415) 555-0100''
   \<and> phones (fst (extract_sales_navigator_contact_info scripted
                 (new_profile (utcnow scripted), phone_page)))
       = ['' (415) 555-0100'', ''(415) 555-0100'']
   \<and> cleaned_phone '' (415) 555-0100'' = ''4155550100''
   \<and> cleaned_phone ''(415) 555-0100'' = ''4155550100''"
  by code_simp

subsection \<open>Websites\<close>

text \<open>
  C5. No URL containing \<open>linkedin.com\<close> should be appended to the websites, and the
  websites should be free of repetitions. The loop of
  \<open>_extract_sales_navigator_contact_info\<close> does both (\<open>extract_websites_appends\<close>).
  \<open>_extract_contact_info\<close> filters all matches against the list as it was before
  the call and appends them together (\<open>extend_websites_appends\<close>), so a URL found
  twice in the contact modal is appended twice: on an authenticated profile whose
  markup reads \<open><a href='https://janedoe.dev'>https://janedoe.dev</a>\<close> the record
  ends with two entries \<open>https://janedoe.dev\<close>.
\<close>

theorem duplicate_website_on_member_page:
  "page_markup member_page = ''<a href='https://janedoe.dev'>https://janedoe.dev</a>''
   \<and> detect_page_type scripted member_page = Inr ''authenticated_profile''
   \<and> websites (fst (extract_regular_profile scripted member_page))
       = [''https://janedoe.dev'', ''https://janedoe.dev'']"
  by code_simp

subsection \<open>Running the steps twice\<close>

text \<open>
  A second run of the three steps over the same markup adds no new value: the sets of
  emails and of phones are those of the first run, whose lists stay in front, and the
  list of websites is unchanged. The lists of emails and phones themselves can grow.
\<close>

lemma pattern_extract_twice_sets:
  "set (emails (pattern_extract E markup (pattern_extract E markup profile)))
     = set (emails (pattern_extract E markup profile))
   \<and> set (phones (pattern_extract E markup (pattern_extract E markup profile)))
     = set (phones (pattern_extract E markup profile))
   \<and> websites (pattern_extract E markup (pattern_extract E markup profile))
     = websites (pattern_extract E markup profile)
   \<and> (\<exists>more. emails (pattern_extract E markup (pattern_extract E markup profile))
              = emails (pattern_extract E markup profile) @ more)
   \<and> (\<exists>more. phones (pattern_extract E markup (pattern_extract E markup profile))
              = phones (pattern_extract E markup profile) @ more)"
proof -
  obtain em where em:
    "extract_emails E markup (extract_emails E markup (emails profile))
       = extract_emails E markup (emails profile) @ em"
    "set em \<subseteq> set (extract_emails E markup (emails profile))"
    using extract_emails_twice [of E markup "emails profile"] by (elim exE conjE)
  obtain ph where ph:
    "extract_phones E markup (extract_phones E markup (phones profile))
       = extract_phones E markup (phones profile) @ ph"
    "set ph \<subseteq> set (extract_phones E markup (phones profile))"
    using extract_phones_twice [of E markup "phones profile"] by (elim exE conjE)
  have e: "emails (pattern_extract E markup (pattern_extract E markup profile))
      = extract_emails E markup (emails profile) @ em"
    by (simp add: pattern_extract_def em(1))
  have p: "phones (pattern_extract E markup (pattern_extract E markup profile))
      = extract_phones E markup (phones profile) @ ph"
    by (simp add: pattern_extract_def ph(1))
  have e1: "emails (pattern_extract E markup profile)
      = extract_emails E markup (emails profile)"
    by (simp add: pattern_extract_def)
  have p1: "phones (pattern_extract E markup profile)
      = extract_phones E markup (phones profile)"
    by (simp add: pattern_extract_def)
  have w: "websites (pattern_extract E markup (pattern_extract E markup profile))
     = websites (pattern_extract E markup profile)"
    by (simp add: pattern_extract_def extract_websites_twice)
  from em(2) have se: "set (extract_emails E markup (emails profile) @ em)
      = set (extract_emails E markup (emails profile))"
    by auto
  from ph(2) have sp: "set (extract_phones E markup (phones profile) @ ph)
      = set (extract_phones E markup (phones profile))"
    by auto
  show ?thesis unfolding e p e1 p1 w se sp by simp
qed


section \<open>Search results\<close>

lemma card_loop_eq:
  "card_loop E s cards acc = acc @ concat (map (\<lambda>c. case extract_card E s c of
       Inl e \<Rightarrow> [] | Inr p \<Rightarrow> if extraction_success p then [p] else []) cards)"
  by (induction cards arbitrary: acc) (auto split: sum.splits)

lemma card_loop_length: "length (card_loop E s cards acc) \<le> length acc + length cards"
proof (induction cards arbitrary: acc)
  case Nil
  show ?case by simp
next
  case (Cons c cards)
  let ?acc1 = "case extract_card E s c of Inl e \<Rightarrow> acc
     | Inr p \<Rightarrow> if extraction_success p then acc @ [p] else acc"
  have "length ?acc1 \<le> Suc (length acc)" by (simp split: sum.splits)
  moreover have "length (card_loop E s cards ?acc1) \<le> length ?acc1 + length cards"
    by (rule Cons.IH)
  ultimately show ?case by simp
qed

lemma extract_card_success:
  "extract_card E s c = Inr p \<Longrightarrow> extraction_success p = (full_name p \<noteq> [])"
  unfolding extract_card_def Let_def by (auto split: sum.splits)

lemma card_loop_members:
  "p \<in> set (card_loop E s cards acc) \<Longrightarrow>
     p \<in> set acc \<or> (\<exists>c \<in> set cards. extract_card E s c = Inr p \<and> extraction_success p)"
  unfolding card_loop_eq by (auto split: sum.splits if_splits)

lemma search_results_length: "length (extract_sales_navigator_search_results E s) \<le> 10"
proof -
  have "length (card_loop E s (take 10 cards) []) \<le> 10" for cards
    using card_loop_length [of E s "take 10 cards" "[]"] by simp
  then show ?thesis
    unfolding extract_sales_navigator_search_results_def by (auto split: sum.splits)
qed

lemma search_results_members:
  assumes "p \<in> set (extract_sales_navigator_search_results E s)"
  shows "extraction_success p \<and> full_name p \<noteq> []"
proof -
  have "extraction_success q \<and> full_name q \<noteq> []"
    if "q \<in> set (card_loop E s (take 10 cards) [])" for q cards
    using card_loop_members [OF that] extract_card_success by fastforce
  with assms show ?thesis
    unfolding extract_sales_navigator_search_results_def
    by (auto split: sum.splits if_splits)
qed

text \<open>
  C6. \<open>extract_sales_navigator_search_results\<close> returns at most ten records however
  many cards the page has, and no record of a card whose name was not found: every
  record it returns has a name and \<open>extraction_success\<close> set.
\<close>

theorem search_results_capped:
  "length (extract_sales_navigator_search_results E s) \<le> 10
   \<and> (\<forall>p \<in> set (extract_sales_navigator_search_results E s).
         extraction_success p \<and> full_name p \<noteq> [])"
  by (intro conjI ballI search_results_length search_results_members)

text \<open>Twelve cards, the second without a name: nine records come back.\<close>

theorem search_results_capped_witness:
  "map full_name (extract_sales_navigator_search_results scripted search_page)
     = [''Ann'', ''Bob'', ''Cy'', ''Di'', ''Ed'', ''Flo'', ''Gus'', ''Hal'', ''Ida'']
   \<and> length (extract_sales_navigator_search_results scripted search_page) \<le> 10
   \<and> list_all (\<lambda>p. extraction_success p \<and> full_name p \<noteq> [])
        (extract_sales_navigator_search_results scripted search_page)"
proof -
  have "map full_name (extract_sales_navigator_search_results scripted search_page)
     = [''Ann'', ''Bob'', ''Cy'', ''Di'', ''Ed'', ''Flo'', ''Gus'', ''Hal'', ''Ida'']"
    by code_simp
  with search_results_capped [of scripted search_page] show ?thesis
    unfolding list_all_iff by simp
qed

section \<open>Unsupported pages\<close>

text \<open>
  C8. When the page is classified as a company page or as unknown, \<open>extract_profile\<close>
  raises nothing and returns the empty record: \<open>extraction_success\<close> is false and the
  five contact lists are empty.
\<close>

theorem unsupported_page_gives_empty_record:
  assumes "navigate E url s = Inr s1" and "detect_page_type E s1 = Inr page_type"
    and "page_type = ''company_page'' \<or> page_type = ''unknown''"
  shows "extract_profile E url s = Inr (Single (new_profile (utcnow E)), s1)
   \<and> \<not> extraction_success (new_profile (utcnow E))
   \<and> full_name (new_profile (utcnow E)) = []
   \<and> emails (new_profile (utcnow E)) = [] \<and> phones (new_profile (utcnow E)) = []
   \<and> websites (new_profile (utcnow E)) = [] \<and> social_links (new_profile (utcnow E)) = []
   \<and> addresses (new_profile (utcnow E)) = []"
  using assms unfolding extract_profile_def
  by (auto simp add: new_profile_def post_init_def default_kwargs_def none_to_empty_def)

theorem unsupported_page_gives_empty_record_witness:
  "current_url scripted company_page = ''https://linkedin.com/company/acme''
   \<and> extract_profile scripted None company_page
     = Inr (Single (new_profile (utcnow scripted)), company_page)
   \<and> \<not> extraction_success (new_profile (utcnow scripted))
   \<and> emails (new_profile (utcnow scripted)) = []
   \<and> phones (new_profile (utcnow scripted)) = []
   \<and> websites (new_profile (utcnow scripted)) = []
   \<and> social_links (new_profile (utcnow scripted)) = []
   \<and> addresses (new_profile (utcnow scripted)) = []"
proof -
  have u: "current_url scripted company_page = ''https://linkedin.com/company/acme''"
    by code_simp
  have n: "navigate scripted None company_page = Inr company_page"
    by code_simp
  have d: "detect_page_type scripted company_page = Inr ''company_page''"
    by code_simp
  from unsupported_page_gives_empty_record [OF n d] u show ?thesis by simp
qed

section \<open>Regular profiles\<close>

text \<open>The company loop and the about section leave the contact lists, the page type and the name alone.\<close>

lemma company_loop_frame:
  "emails (company_loop E s selectors p) = emails p
   \<and> phones (company_loop E s selectors p) = phones p
   \<and> websites (company_loop E s selectors p) = websites p
   \<and> social_links (company_loop E s selectors p) = social_links p
   \<and> addresses (company_loop E s selectors p) = addresses p
   \<and> profile_type (company_loop E s selectors p) = profile_type p
   \<and> full_name (company_loop E s selectors p) = full_name p"
  by (induction selectors arbitrary: p) (auto simp add: Let_def split: sum.splits)

lemma about_section_frame:
  "emails (extract_about_section E s p) = emails p
   \<and> phones (extract_about_section E s p) = phones p
   \<and> websites (extract_about_section E s p) = websites p
   \<and> social_links (extract_about_section E s p) = social_links p
   \<and> addresses (extract_about_section E s p) = addresses p
   \<and> profile_type (extract_about_section E s p) = profile_type p
   \<and> full_name (extract_about_section E s p) = full_name p"
  by (simp add: extract_about_section_def split: sum.splits)

lemma regular_profile_try_frame:
  assumes "detect_page_type E s \<noteq> Inr ''authenticated_profile''"
  shows "emails (fst (fst (regular_profile_try E s p))) = emails p
   \<and> phones (fst (fst (regular_profile_try E s p))) = phones p
   \<and> websites (fst (fst (regular_profile_try E s p))) = websites p
   \<and> social_links (fst (fst (regular_profile_try E s p))) = social_links p
   \<and> addresses (fst (fst (regular_profile_try E s p))) = addresses p
   \<and> snd (fst (regular_profile_try E s p)) = s"
  using assms unfolding regular_profile_try_def Let_def
  by (simp add: company_loop_frame about_section_frame split: sum.splits)

text \<open>
  C10. On a page classified as a public profile, the record of
  \<open>extract_regular_profile\<close> has all five contact lists empty: the contact flow runs
  only when the page is classified as an authenticated profile, and nothing else in
  the method reads contact data from the markup. On any page not classified as
  authenticated the lists are empty and the session is left where it was (nothing was
  clicked).
\<close>

theorem no_contact_info_unless_authenticated:
  assumes "detect_page_type E s \<noteq> Inr ''authenticated_profile''"
  shows "emails (fst (extract_regular_profile E s)) = []
   \<and> phones (fst (extract_regular_profile E s)) = []
   \<and> websites (fst (extract_regular_profile E s)) = []
   \<and> social_links (fst (extract_regular_profile E s)) = []
   \<and> addresses (fst (extract_regular_profile E s)) = []
   \<and> snd (extract_regular_profile E s) = s"
  using regular_profile_try_frame
      [OF assms, of "(new_profile (utcnow E))\<lparr> linkedin_url := current_url E s \<rparr>"]
  unfolding extract_regular_profile_def Let_def
  by (simp add: new_profile_def post_init_def default_kwargs_def none_to_empty_def
        split: option.splits)

text \<open>A public profile whose markup holds an email address and a URL.\<close>

theorem no_contact_info_unless_authenticated_witness:
  "detect_page_type scripted public_page = Inr ''public_profile''
   \<and> page_markup public_page = ''<h1>Alice Doe</h1> alice@example.com https://alice.example''
   \<and> emails (fst (extract_regular_profile scripted public_page)) = []
   \<and> phones (fst (extract_regular_profile scripted public_page)) = []
   \<and> websites (fst (extract_regular_profile scripted public_page)) = []
   \<and> social_links (fst (extract_regular_profile scripted public_page)) = []
   \<and> addresses (fst (extract_regular_profile scripted public_page)) = []
   \<and> snd (extract_regular_profile scripted public_page) = public_page"
proof -
  have d: "detect_page_type scripted public_page = Inr ''public_profile''"
    by code_simp
  have m: "page_markup public_page = ''<h1>Alice Doe</h1> alice@example.com https://alice.example''"
    by code_simp
  from d have "detect_page_type scripted public_page \<noteq> Inr ''authenticated_profile''"
    by simp
  from no_contact_info_unless_authenticated [OF this] d m show ?thesis by simp
qed

section \<open>The success flag\<close>

lemma regular_profile_try_success:
  "snd (regular_profile_try E s p) = None \<Longrightarrow>
     extraction_success (fst (fst (regular_profile_try E s p)))
       = (full_name (fst (fst (regular_profile_try E s p))) \<noteq> [])"
  unfolding regular_profile_try_def Let_def
  by (simp split: sum.splits)

lemma extract_regular_profile_success:
  "extraction_success (fst (extract_regular_profile E s))
     = (snd (regular_profile_try E s
               ((new_profile (utcnow E))\<lparr> linkedin_url := current_url E s \<rparr>)) = None
        \<and> full_name (fst (extract_regular_profile E s)) \<noteq> [])"
  using regular_profile_try_success
      [of E s "(new_profile (utcnow E))\<lparr> linkedin_url := current_url E s \<rparr>"]
  unfolding extract_regular_profile_def Let_def
  by (auto split: option.splits)

lemma extract_sales_navigator_profile_success:
  "extraction_success (fst (extract_sales_navigator_profile E s))
     = (full_name (fst (extract_sales_navigator_profile E s)) \<noteq> [])"
  unfolding extract_sales_navigator_profile_def Let_def
  by (simp add: new_profile_def post_init_def default_kwargs_def split: sum.splits)

text \<open>
  When the session fails after the name was read, \<open>extract_regular_profile\<close> returns
  the name with the flag off.
\<close>

lemma regular_profile_name_without_success:
  "full_name (fst (extract_regular_profile broken public_page)) = ''Alice Doe''
   \<and> \<not> extraction_success (fst (extract_regular_profile broken public_page))"
  by code_simp

text \<open>
  C1, as stated: on every record, however it was made, \<open>extraction_success\<close> is true
  exactly when \<open>full_name\<close> is non-empty. The flag is a field of the dataclass with
  default \<open>False\<close>: a record constructed with a name and no flag has a name and the
  flag off.
\<close>

theorem success_flag_counterexample:
  "\<not> (extraction_success (post_init [] (default_kwargs\<lparr> full_name := ''John Doe'' \<rparr>))
       \<longleftrightarrow> full_name (post_init [] (default_kwargs\<lparr> full_name := ''John Doe'' \<rparr>)) \<noteq> [])"
  by (simp add: post_init_def default_kwargs_def)

text \<open>
  C1, amended. The default-constructed record has the flag off and no name; direct
  construction stores the flag and the name as they are passed. After
  \<open>extract_sales_navigator_profile\<close>, and on the record of every card of
  \<open>extract_sales_navigator_search_results\<close>, the flag is on exactly when the name is
  non-empty; every record the search returns has both. After
  \<open>extract_regular_profile\<close> the flag is on only if the name is non-empty, and
  exactly then when no exception reached the handler of the method.
\<close>

theorem success_flag_follows_name:
  "(\<not> extraction_success (new_profile now) \<and> full_name (new_profile now) = [])
   \<and> (extraction_success (post_init now a) = extraction_success a
        \<and> full_name (post_init now a) = full_name a)
   \<and> (extraction_success (fst (extract_sales_navigator_profile E s))
        = (full_name (fst (extract_sales_navigator_profile E s)) \<noteq> []))
   \<and> (extract_card E s c = Inr p \<longrightarrow> extraction_success p = (full_name p \<noteq> []))
   \<and> (\<forall>p \<in> set (extract_sales_navigator_search_results E s).
         extraction_success p \<and> full_name p \<noteq> [])
   \<and> (extraction_success (fst (extract_regular_profile E s))
        \<longrightarrow> full_name (fst (extract_regular_profile E s)) \<noteq> [])
   \<and> (snd (regular_profile_try E s
              ((new_profile (utcnow E))\<lparr> linkedin_url := current_url E s \<rparr>)) = None
        \<longrightarrow> extraction_success (fst (extract_regular_profile E s))
            = (full_name (fst (extract_regular_profile E s)) \<noteq> []))"
proof -
  have "\<not> extraction_success (new_profile now) \<and> full_name (new_profile now) = []"
    by (simp add: new_profile_def post_init_def default_kwargs_def)
  moreover have "extraction_success (post_init now a) = extraction_success a
        \<and> full_name (post_init now a) = full_name a"
    by (simp add: post_init_def)
  moreover note extract_sales_navigator_profile_success [of E s]
  moreover have "extract_card E s c = Inr p \<longrightarrow> extraction_success p = (full_name p \<noteq> [])"
    by (rule impI) (erule extract_card_success)
  moreover have "\<forall>p \<in> set (extract_sales_navigator_search_results E s).
         extraction_success p \<and> full_name p \<noteq> []"
    by (intro ballI search_results_members)
  moreover note extract_regular_profile_success [of E s]
  ultimately show ?thesis by blast
qed

theorem success_flag_follows_name_witness:
  "extraction_success (fst (extract_regular_profile scripted public_page))
   \<and> full_name (fst (extract_regular_profile scripted public_page)) \<noteq> []
   \<and> snd (regular_profile_try scripted public_page
            ((new_profile (utcnow scripted))\<lparr> linkedin_url :=
                current_url scripted public_page \<rparr>)) = None
   \<and> extract_sales_navigator_search_results scripted search_page \<noteq> []
   \<and> list_all (\<lambda>p. extraction_success p \<and> full_name p \<noteq> [])
        (extract_sales_navigator_search_results scripted search_page)
   \<and> extract_card scripted search_page (named_card ''Ann'')
       = Inr ((new_profile (utcnow scripted))\<lparr> full_name := ''Ann'',
               profile_type := ''sales_navigator_search'', extraction_success := True \<rparr>)"
proof -
  have a: "extraction_success (fst (extract_regular_profile scripted public_page))"
    by code_simp
  have b: "snd (regular_profile_try scripted public_page
            ((new_profile (utcnow scripted))\<lparr> linkedin_url :=
                current_url scripted public_page \<rparr>)) = None"
    by code_simp
  have c: "extract_sales_navigator_search_results scripted search_page \<noteq> []"
    by code_simp
  have d: "extract_card scripted search_page (named_card ''Ann'')
       = Inr ((new_profile (utcnow scripted))\<lparr> full_name := ''Ann'',
               profile_type := ''sales_navigator_search'', extraction_success := True \<rparr>)"
    by code_simp
  from success_flag_follows_name [of _ _ scripted public_page] a
  have e: "full_name (fst (extract_regular_profile scripted public_page)) \<noteq> []"
    by blast
  from success_flag_follows_name [of _ _ scripted search_page]
  have f: "list_all (\<lambda>p. extraction_success p \<and> full_name p \<noteq> [])
        (extract_sales_navigator_search_results scripted search_page)"
    unfolding list_all_iff by blast
  from a b c d e f show ?thesis by blast
qed

end
